theory Spec2Isabelle
  imports Complex_Main "HOL-Library.Multiset"
begin

section \<open>Python values and exceptions\<close>

text \<open>
  The functions of \<^verbatim>\<open>dit/log_decomp/intersection.py\<close> and
  \<^verbatim>\<open>dit/pid/measures/ilogdec.py\<close> inspect the run-time class of their
  arguments with \<^verbatim>\<open>isinstance\<close>, so an argument is a value of a small universe
  of Python objects. \<open>'d\<close> is the type of \<^verbatim>\<open>dit.Distribution\<close> objects, which
  the two modules only pass on to their collaborators.
\<close>

datatype 'd pyval =
    PNone
  | PBool bool
  | PInt int
  | PFloat real
  | PStr string
  | PList "'d pyval list"
  | PTuple "'d pyval list"
  | PDist 'd

text \<open>
  The exceptions the code raises itself are \<^verbatim>\<open>TypeError\<close>, \<^verbatim>\<open>ValueError\<close>
  and the \<^verbatim>\<open>KeyError\<close> of \<^verbatim>\<open>set.pop\<close> on an empty set. \<open>Raised\<close> stands
  for any other exception a collaborator may raise.
\<close>

datatype error = TypeError | ValueError | KeyError | Raised string

text \<open>\<^verbatim>\<open>isinstance(x, int)\<close>: \<^verbatim>\<open>bool\<close> is a subclass of \<^verbatim>\<open>int\<close>.\<close>

fun isinstance_int :: "'d pyval \<Rightarrow> bool" where
  "isinstance_int (PInt n) = True"
| "isinstance_int (PBool b) = True"
| "isinstance_int v = False"

fun isinstance_str :: "'d pyval \<Rightarrow> bool" where
  "isinstance_str (PStr s) = True"
| "isinstance_str v = False"

fun isinstance_float :: "'d pyval \<Rightarrow> bool" where
  "isinstance_float (PFloat x) = True"
| "isinstance_float v = False"

section \<open>The collaborators\<close>

text \<open>
  \<^verbatim>\<open>content\<close> and \<^verbatim>\<open>measure\<close> (module \<^verbatim>\<open>log_decomp.content\<close>),
  \<^verbatim>\<open>get_n_atoms\<close> and \<^verbatim>\<open>upper_set\<close> (module \<^verbatim>\<open>log_decomp.combinatorics\<close>)
  are imported by \<^verbatim>\<open>intersection.py\<close>; they are parameters of the model, and each
  may raise. \<open>'a\<close> is the type of atoms.

  \<open>set_iter\<close> is the order in which the interpreter iterates over a \<^verbatim>\<open>set\<close> of
  frozensets: it maps the sequence of elements added to the set to the sequence in which
  \<^verbatim>\<open>pop\<close> and \<^verbatim>\<open>for\<close> visit them. Python leaves this order open.

  \<open>Distribution_iter\<close> is what iterating over a \<^verbatim>\<open>Distribution\<close> object gives: the
  class (module \<^verbatim>\<open>npdist\<close>) is not among the source files, so whether the object is
  iterable, and what it yields, is a parameter as well.
\<close>

record ('d, 'a) env =
  content :: "'d \<Rightarrow> 'd pyval \<Rightarrow> error + 'a set"
  measure_fn :: "'d \<Rightarrow> 'a set \<Rightarrow> 'd pyval \<Rightarrow> error + real"
  get_n_atoms :: "'a set \<Rightarrow> 'd pyval \<Rightarrow> error + 'a set"
  upper_set :: "'d \<Rightarrow> 'a set \<Rightarrow> error + 'a set"
  set_iter :: "'a set list \<Rightarrow> 'a set list"
  Distribution_iter :: "'d \<Rightarrow> error + 'd pyval list"

text \<open>
  What every implementation of \<^verbatim>\<open>set\<close> guarantees of the iteration order: each
  element of the set is visited once.
\<close>

definition set_order :: "('x list \<Rightarrow> 'x list) \<Rightarrow> bool" where
  "set_order it = (\<forall>xs. distinct (it xs) \<and> set (it xs) = set xs)"

section \<open>\<^verbatim>\<open>intersection.py\<close>\<close>

text \<open>
  Line 57, \<^verbatim>\<open>{frozenset(content(dist, group)) for group in list_of_rv_groups}\<close>:
  \<^verbatim>\<open>content\<close> is called on the groups from left to right, and the first exception
  ends the comprehension. The result lists the frozensets in the order they are added.
\<close>

fun relevant_contents :: "('d pyval \<Rightarrow> error + 'a set) \<Rightarrow> 'd pyval list \<Rightarrow> error + 'a set list" where
  "relevant_contents f [] = Inr []"
| "relevant_contents f (rv_group # groups) =
     (case f rv_group of
        Inl e \<Rightarrow> Inl e
      | Inr c \<Rightarrow>
          (case relevant_contents f groups of
             Inl e \<Rightarrow> Inl e
           | Inr cs \<Rightarrow> Inr (c # cs)))"

text \<open>
  Lines 61 and 62, the loop
  \<^verbatim>\<open>for content_set in relevant_contents: intersection_set = intersection_set.intersection(content_set)\<close>
  over the elements left after \<^verbatim>\<open>pop\<close>.
\<close>

fun intersection_loop :: "'a set \<Rightarrow> 'a set list \<Rightarrow> 'a set" where
  "intersection_loop intersection_set [] = intersection_set"
| "intersection_loop intersection_set (content_set # rest) =
     intersection_loop (intersection_set \<inter> content_set) rest"

text \<open>
  \<^verbatim>\<open>weakly_shared_content(dist, list_of_rv_groups, order)\<close>, lines 47 to 68. The
  \<open>case\<close> on \<open>dist'\<close> (the argument \<^verbatim>\<open>dist\<close>) is the check of line 47, the
  one on \<open>list_of_rv_groups\<close> that of line 49, each with \<^verbatim>\<open>TypeError\<close> for every
  other class of object; \<^verbatim>\<open>relevant_contents.pop()\<close> raises \<^verbatim>\<open>KeyError\<close> on the empty set and
  otherwise takes the first element of the iteration order out of the set.
\<close>

definition weakly_shared_content ::
  "('d, 'a) env \<Rightarrow> 'd pyval \<Rightarrow> 'd pyval \<Rightarrow> 'd pyval \<Rightarrow> error + 'a set" where
  "weakly_shared_content E dist' list_of_rv_groups order =
     (case dist' of
        PDist d \<Rightarrow>
          (case list_of_rv_groups of
             PList groups \<Rightarrow>
               if \<not> (isinstance_int order \<or> isinstance_str order) then Inl TypeError
               else if isinstance_str order \<and> order \<notin> set [PStr ''even'', PStr ''odd'']
                 then Inl ValueError
               else
                 (case relevant_contents (content E d) groups of
                    Inl e \<Rightarrow> Inl e
                  | Inr cs \<Rightarrow>
                      (case set_iter E cs of
                         [] \<Rightarrow> Inl KeyError
                       | intersection_set # remaining \<Rightarrow>
                           (case get_n_atoms E (intersection_loop intersection_set remaining) order of
                              Inl e \<Rightarrow> Inl e
                            | Inr filtered_atoms \<Rightarrow> upper_set E d filtered_atoms)))
           | _ \<Rightarrow> Inl TypeError)
      | _ \<Rightarrow> Inl TypeError)"

text \<open>
  \<^verbatim>\<open>weakly_shared(dist, list_of_rv_groups, order, log_base)\<close>, lines 98 to 114: the
  same checks, with the one on \<^verbatim>\<open>log_base\<close> before the one on the value of a string
  \<^verbatim>\<open>order\<close>, then \<^verbatim>\<open>measure\<close> of the set \<^verbatim>\<open>weakly_shared_content\<close> returns.
\<close>

definition weakly_shared ::
  "('d, 'a) env \<Rightarrow> 'd pyval \<Rightarrow> 'd pyval \<Rightarrow> 'd pyval \<Rightarrow> 'd pyval \<Rightarrow> error + real" where
  "weakly_shared E dist' list_of_rv_groups order log_base =
     (case dist' of
        PDist d \<Rightarrow>
          (case list_of_rv_groups of
             PList groups \<Rightarrow>
               if \<not> (isinstance_int order \<or> isinstance_str order) then Inl TypeError
               else if \<not> (isinstance_int log_base \<or> isinstance_float log_base) then Inl TypeError
               else if isinstance_str order \<and> order \<notin> set [PStr ''even'', PStr ''odd'']
                 then Inl ValueError
               else
                 (case weakly_shared_content E dist' list_of_rv_groups order of
                    Inl e \<Rightarrow> Inl e
                  | Inr set_to_measure \<Rightarrow> measure_fn E d set_to_measure log_base)
           | _ \<Rightarrow> Inl TypeError)
      | _ \<Rightarrow> Inl TypeError)"

text \<open>
  \<^verbatim>\<open>strongly_shared_content(dist, list_of_rv_groups, order)\<close>, lines 116 to 144: the
  body is the docstring alone, so every call returns \<^verbatim>\<open>None\<close>.
\<close>

definition strongly_shared_content :: "'d pyval \<Rightarrow> 'd pyval \<Rightarrow> 'd pyval \<Rightarrow> error + 'd pyval" where
  "strongly_shared_content dist' list_of_rv_groups order = Inr PNone"

section \<open>\<^verbatim>\<open>ilogdec.py\<close>\<close>

text \<open>
  \<^verbatim>\<open>list(x)\<close>, and the iteration of \<^verbatim>\<open>for x in sources\<close>: a list or a tuple
  gives its elements, a string its characters as strings of length one, a
  \<^verbatim>\<open>Distribution\<close> what its class yields; \<^verbatim>\<open>None\<close>, a \<^verbatim>\<open>bool\<close>, an
  \<^verbatim>\<open>int\<close> and a \<^verbatim>\<open>float\<close> are not iterable, which is a \<^verbatim>\<open>TypeError\<close>.
\<close>

fun py_list :: "('d \<Rightarrow> error + 'd pyval list) \<Rightarrow> 'd pyval \<Rightarrow> error + 'd pyval list" where
  "py_list di (PList xs) = Inr xs"
| "py_list di (PTuple xs) = Inr xs"
| "py_list di (PStr s) = Inr (map (\<lambda>c. PStr [c]) s)"
| "py_list di (PDist d) = di d"
| "py_list di v = Inl TypeError"

text \<open>
  The comprehension \<^verbatim>\<open>[list(x) for x in sources]\<close> of line 50 over the elements
  of \<^verbatim>\<open>sources\<close>, from left to right; the first exception ends it.
\<close>

fun lists_of :: "('d \<Rightarrow> error + 'd pyval list) \<Rightarrow> 'd pyval list \<Rightarrow> error + 'd pyval list" where
  "lists_of di [] = Inr []"
| "lists_of di (x # xs) =
     (case py_list di x of
        Inl e \<Rightarrow> Inl e
      | Inr l \<Rightarrow>
          (case lists_of di xs of
             Inl e \<Rightarrow> Inl e
           | Inr ls \<Rightarrow> Inr (PList l # ls)))"

text \<open>
  \<^verbatim>\<open>PID_LogDec._measure(d, sources, target, order, method)\<close>, lines 50 to 56. Line 50
  runs before \<^verbatim>\<open>method\<close> is tested, so a \<^verbatim>\<open>sources\<close> that is not an iterable of
  iterables raises \<^verbatim>\<open>TypeError\<close> under every method. With
  \<^verbatim>\<open>"shared_generator"\<close>, \<^verbatim>\<open>list(target)\<close> is evaluated next and then
  \<^verbatim>\<open>weakly_shared\<close> is called, with \<^verbatim>\<open>log_base\<close> at its default 2. The branch of
  \<^verbatim>\<open>"cross"\<close> is \<^verbatim>\<open>pass\<close>, and no branch takes any other method: both fall off
  the end of the function, which returns \<^verbatim>\<open>None\<close>.
\<close>

definition PID_LogDec_measure ::
  "('d, 'a) env \<Rightarrow> 'd pyval \<Rightarrow> 'd pyval \<Rightarrow> 'd pyval \<Rightarrow> 'd pyval \<Rightarrow> 'd pyval
     \<Rightarrow> error + real option" where
  "PID_LogDec_measure E d sources target order method =
     (case py_list (Distribution_iter E) sources of
        Inl e \<Rightarrow> Inl e
      | Inr xs \<Rightarrow>
          (case lists_of (Distribution_iter E) xs of
             Inl e \<Rightarrow> Inl e
           | Inr ls \<Rightarrow>
               (let source_list = [ls] in
                if method = PStr ''shared_generator'' then
                  (case py_list (Distribution_iter E) target of
                     Inl e \<Rightarrow> Inl e
                   | Inr t \<Rightarrow>
                       (case weakly_shared E d (PList (source_list ! 0 @ [PList t])) order (PInt 2) of
                          Inl e \<Rightarrow> Inl e
                        | Inr ilogdec \<Rightarrow> Inr (Some ilogdec)))
                else if method = PStr ''cross'' then Inr None
                else Inr None)))"

section \<open>The calls on a store of objects\<close>

text \<open>
  Python passes references. To say what a call does to the objects it is given, the two
  functions of \<^verbatim>\<open>intersection.py\<close> are also written over a store: every object has
  an address, an argument is the address of an object, and a new object gets the next
  free address. An object is a value of the universe above, or a \<^verbatim>\<open>set\<close> of
  frozensets, held as the sequence of its elements in iteration order. What a call returns
  is \<^verbatim>\<open>None\<close>, a set of atoms or a \<^verbatim>\<open>float\<close>.
\<close>

type_synonym addr = nat

datatype ('d, 'a) obj = Value "'d pyval" | SetOfFrozensets "'a set list"

record ('d, 'a) store =
  objs :: "addr \<Rightarrow> ('d, 'a) obj"
  next_addr :: addr

datatype 'a retval = RNone | RSet "'a set" | RFloat real

fun as_pyval :: "('d, 'a) obj \<Rightarrow> 'd pyval option" where
  "as_pyval (Value v) = Some v"
| "as_pyval (SetOfFrozensets xs) = None"

text \<open>A new object is put at the next free address.\<close>

definition alloc :: "('d, 'a) obj \<Rightarrow> ('d, 'a) store \<Rightarrow> addr \<times> ('d, 'a) store" where
  "alloc ob s =
     (next_addr s, s\<lparr>objs := (objs s)(next_addr s := ob), next_addr := Suc (next_addr s)\<rparr>)"

text \<open>
  \<^verbatim>\<open>set.pop()\<close> on the object at an address: it raises \<^verbatim>\<open>KeyError\<close> on the empty
  set, and otherwise takes the first element of the iteration order out of the object,
  which it changes in place. The functions below call it on the set of line 57 alone; on
  an object that is no set the model raises.
\<close>

definition set_pop :: "addr \<Rightarrow> ('d, 'a) store \<Rightarrow> (error + 'a set) \<times> ('d, 'a) store" where
  "set_pop a s =
     (case objs s a of
        SetOfFrozensets [] \<Rightarrow> (Inl KeyError, s)
      | SetOfFrozensets (x # remaining) \<Rightarrow>
          (Inr x, s\<lparr>objs := (objs s)(a := SetOfFrozensets remaining)\<rparr>)
      | Value v \<Rightarrow> (Inl (Raised ''pop''), s))"

text \<open>The elements a \<^verbatim>\<open>for\<close> loop over the object at an address visits.\<close>

definition set_elements :: "addr \<Rightarrow> ('d, 'a) store \<Rightarrow> 'a set list" where
  "set_elements a s = (case objs s a of SetOfFrozensets xs \<Rightarrow> xs | Value v \<Rightarrow> [])"

text \<open>
  \<^verbatim>\<open>weakly_shared_content\<close>, lines 47 to 68, statement by statement. The checks read
  the three argument objects; an argument that is a set of frozensets is of none of the
  classes tested. Line 57 makes a new set object (the collaborators are given values and
  have no side effects, as sections 4.1, 4.2 and 5 of the specification say), line 59 pops
  from it, lines 61 and 62 iterate over what is left of it and rebind the local
  \<^verbatim>\<open>intersection_set\<close>, and line 68 returns the set \<^verbatim>\<open>upper_set\<close> returned.
\<close>

definition weakly_shared_content_run ::
  "('d, 'a) env \<Rightarrow> addr \<Rightarrow> addr \<Rightarrow> addr \<Rightarrow> ('d, 'a) store
     \<Rightarrow> (error + 'a retval) \<times> ('d, 'a) store" where
  "weakly_shared_content_run E dist' list_of_rv_groups order s =
     (case as_pyval (objs s dist') of
        Some (PDist d) \<Rightarrow>
          (case as_pyval (objs s list_of_rv_groups) of
             Some (PList groups) \<Rightarrow>
               (case as_pyval (objs s order) of
                  None \<Rightarrow> (Inl TypeError, s)
                | Some order_v \<Rightarrow>
                    if \<not> (isinstance_int order_v \<or> isinstance_str order_v)
                      then (Inl TypeError, s)
                    else if isinstance_str order_v \<and> order_v \<notin> set [PStr ''even'', PStr ''odd'']
                      then (Inl ValueError, s)
                    else
                      (case relevant_contents (content E d) groups of
                         Inl e \<Rightarrow> (Inl e, s)
                       | Inr cs \<Rightarrow>
                           (case alloc (SetOfFrozensets (set_iter E cs)) s of
                              (relevant_contents_a, s1) \<Rightarrow>
                                (case set_pop relevant_contents_a s1 of
                                   (Inl e, s2) \<Rightarrow> (Inl e, s2)
                                 | (Inr intersection_set, s2) \<Rightarrow>
                                     (case get_n_atoms E
                                             (intersection_loop intersection_set
                                                (set_elements relevant_contents_a s2)) order_v of
                                        Inl e \<Rightarrow> (Inl e, s2)
                                      | Inr filtered_atoms \<Rightarrow>
                                          (case upper_set E d filtered_atoms of
                                             Inl e \<Rightarrow> (Inl e, s2)
                                           | Inr set_to_measure \<Rightarrow>
                                               (Inr (RSet set_to_measure), s2)))))))
           | _ \<Rightarrow> (Inl TypeError, s))
      | _ \<Rightarrow> (Inl TypeError, s))"

text \<open>
  \<^verbatim>\<open>weakly_shared\<close>, lines 98 to 114, over the store: the checks, the call of
  \<^verbatim>\<open>weakly_shared_content\<close> on the same three objects, and \<^verbatim>\<open>measure\<close> of the
  set it returns (\<^verbatim>\<open>measure\<close> is never given anything else here; the model raises
  if it were).
\<close>

definition weakly_shared_run ::
  "('d, 'a) env \<Rightarrow> addr \<Rightarrow> addr \<Rightarrow> addr \<Rightarrow> addr \<Rightarrow> ('d, 'a) store
     \<Rightarrow> (error + 'a retval) \<times> ('d, 'a) store" where
  "weakly_shared_run E dist' list_of_rv_groups order log_base s =
     (case as_pyval (objs s dist') of
        Some (PDist d) \<Rightarrow>
          (case as_pyval (objs s list_of_rv_groups) of
             Some (PList groups) \<Rightarrow>
               (case as_pyval (objs s order) of
                  None \<Rightarrow> (Inl TypeError, s)
                | Some order_v \<Rightarrow>
                    if \<not> (isinstance_int order_v \<or> isinstance_str order_v)
                      then (Inl TypeError, s)
                    else
                      (case as_pyval (objs s log_base) of
                         None \<Rightarrow> (Inl TypeError, s)
                       | Some log_base_v \<Rightarrow>
                           if \<not> (isinstance_int log_base_v \<or> isinstance_float log_base_v)
                             then (Inl TypeError, s)
                           else if isinstance_str order_v
                                   \<and> order_v \<notin> set [PStr ''even'', PStr ''odd'']
                             then (Inl ValueError, s)
                           else
                             (case weakly_shared_content_run E dist' list_of_rv_groups order s of
                                (Inl e, s1) \<Rightarrow> (Inl e, s1)
                              | (Inr (RSet set_to_measure), s1) \<Rightarrow>
                                  (case measure_fn E d set_to_measure log_base_v of
                                     Inl e \<Rightarrow> (Inl e, s1)
                                   | Inr shared_information \<Rightarrow>
                                       (Inr (RFloat shared_information), s1))
                              | (Inr _, s1) \<Rightarrow> (Inl (Raised ''measure''), s1))))
           | _ \<Rightarrow> (Inl TypeError, s))
      | _ \<Rightarrow> (Inl TypeError, s))"

section \<open>Predicates of the claims\<close>

text \<open>The two remaining class tests of lines 47 and 49, as predicates.\<close>

fun isinstance_Distribution :: "'d pyval \<Rightarrow> bool" where
  "isinstance_Distribution (PDist d) = True"
| "isinstance_Distribution v = False"

fun isinstance_list :: "'d pyval \<Rightarrow> bool" where
  "isinstance_list (PList xs) = True"
| "isinstance_list v = False"

text \<open>
  An order the checks of lines 51 to 55 let through: an \<^verbatim>\<open>int\<close>, \<^verbatim>\<open>"even"\<close>
  or \<^verbatim>\<open>"odd"\<close>.
\<close>

definition valid_order :: "'d pyval \<Rightarrow> bool" where
  "valid_order order = (isinstance_int order \<or> order = PStr ''even'' \<or> order = PStr ''odd'')"

text \<open>
  The upper set of the atoms of the requested order in a set of atoms, lines 64 to 66:
  \<^verbatim>\<open>upper_set(dist, get_n_atoms(atom_set, order))\<close>.
\<close>

definition upper_set_of_n_atoms :: "('d, 'a) env \<Rightarrow> 'd \<Rightarrow> 'a set \<Rightarrow> 'd pyval \<Rightarrow> error + 'a set" where
  "upper_set_of_n_atoms E d atom_set order =
     (case get_n_atoms E atom_set order of
        Inl e \<Rightarrow> Inl e
      | Inr filtered_atoms \<Rightarrow> upper_set E d filtered_atoms)"

text \<open>
  A sequence of sequences, in the words of the specification: Python's sequences among
  the values of the model are lists, tuples and strings (a string is a sequence of
  one-character strings).
\<close>

fun is_sequence :: "'d pyval \<Rightarrow> bool" where
  "is_sequence (PList xs) = True"
| "is_sequence (PTuple xs) = True"
| "is_sequence (PStr s) = True"
| "is_sequence v = False"

fun is_sequence_of_sequences :: "'d pyval \<Rightarrow> bool" where
  "is_sequence_of_sequences (PList xs) = list_all is_sequence xs"
| "is_sequence_of_sequences (PTuple xs) = list_all is_sequence xs"
| "is_sequence_of_sequences (PStr s) = True"
| "is_sequence_of_sequences v = False"

section \<open>The collaborators as the specification describes them\<close>

text \<open>
  Modelled from the spec: \<^verbatim>\<open>get_n_atoms\<close> of \<^verbatim>\<open>log_decomp/combinatorics.py\<close>,
  which is not among the source files. Section 4.1: it filters \<^verbatim>\<open>atom_set\<close> to the
  atoms whose order matches \<^verbatim>\<open>order\<close>: an integer (exact match), \<^verbatim>\<open>"even"\<close>
  (the order is an even positive integer) or \<^verbatim>\<open>"odd"\<close> (an odd positive integer);
  it fails with \<^verbatim>\<open>TypeError\<close> if \<^verbatim>\<open>order\<close> is none of these. \<open>atom_order\<close> is
  the order of an atom, the number of its generator components.
\<close>

definition get_n_atoms_spec :: "('a \<Rightarrow> nat) \<Rightarrow> 'a set \<Rightarrow> 'd pyval \<Rightarrow> error + 'a set" where
  "get_n_atoms_spec atom_order atom_set order =
     (case order of
        PInt n \<Rightarrow> Inr {a \<in> atom_set. int (atom_order a) = n}
      | PBool b \<Rightarrow> Inr {a \<in> atom_set. atom_order a = (if b then 1 else 0)}
      | PStr s \<Rightarrow>
          if s = ''even'' then Inr {a \<in> atom_set. 0 < atom_order a \<and> even (atom_order a)}
          else if s = ''odd'' then Inr {a \<in> atom_set. odd (atom_order a)}
          else Inl TypeError
      | _ \<Rightarrow> Inl TypeError)"

text \<open>
  Modelled from the spec: \<^verbatim>\<open>upper_set\<close> of \<^verbatim>\<open>log_decomp/combinatorics.py\<close>,
  which is not among the source files. Section 4.1: the set of all atoms of the lattice
  of the distribution that the lattice's is-above order reaches from any seed atom,
  the seed atoms included.
\<close>

definition upper_set_spec ::
  "('d \<Rightarrow> 'a set) \<Rightarrow> ('d \<Rightarrow> 'a \<Rightarrow> 'a \<Rightarrow> bool) \<Rightarrow> 'd \<Rightarrow> 'a set \<Rightarrow> error + 'a set" where
  "upper_set_spec lattice is_above d atoms =
     Inr (atoms \<union> {b \<in> lattice d. \<exists>a\<in>atoms. is_above d a b})"

section \<open>A small instance\<close>

text \<open>
  An instance on which the theorems are run: the atoms are the numbers 1 to 4, the order
  of an atom is the number itself and an atom lies above the smaller ones. The variable
  \<^verbatim>\<open>X\<close> has the atoms 1 and 2, \<^verbatim>\<open>Y\<close> has 2 and 3, \<^verbatim>\<open>Z\<close> has 4; any other
  list has none, and \<open>ex_content\<close> raises an exception of its own on a group that is not
  a list. The measure of a set is the number of its atoms, a set of frozensets is
  iterated in the order its elements were first added, and the distribution is not
  iterable.
\<close>

definition ex_content :: "unit \<Rightarrow> unit pyval \<Rightarrow> error + nat set" where
  "ex_content d g =
     (if g = PList [PStr ''X''] then Inr {1, 2}
      else if g = PList [PStr ''Y''] then Inr {2, 3}
      else if g = PList [PStr ''Z''] then Inr {4}
      else case g of PList vs \<Rightarrow> Inr {} | _ \<Rightarrow> Inl (Raised ''content''))"

definition ex_env :: "(unit, nat) env" where
  "ex_env = \<lparr>content = ex_content,
            measure_fn = (\<lambda>d s log_base. Inr (real (card s))),
            get_n_atoms = get_n_atoms_spec id,
            upper_set = upper_set_spec (\<lambda>d. {1, 2, 3, 4}) (\<lambda>d a b. a \<le> b),
            set_iter = remdups,
            Distribution_iter = (\<lambda>d. Inl TypeError)\<rparr>"


section \<open>The loop computes the intersection\<close>

lemma intersection_loop_Inter: "intersection_loop s cs = s \<inter> \<Inter>(set cs)"
  by (induction cs arbitrary: s) auto

lemma relevant_contents_all_Inr:
  "\<forall>g\<in>set gs. f g = Inr (C g) \<Longrightarrow> relevant_contents f gs = Inr (map C gs)"
  by (induction gs) auto

lemma relevant_contents_append:
  "relevant_contents f (gs @ hs) =
     (case relevant_contents f gs of
        Inl e \<Rightarrow> Inl e
      | Inr cs \<Rightarrow> (case relevant_contents f hs of Inl e \<Rightarrow> Inl e | Inr ds \<Rightarrow> Inr (cs @ ds)))"
  by (induction gs) (auto split: sum.splits)

lemma relevant_contents_Inr_D:
  "relevant_contents f gs = Inr cs \<Longrightarrow> g \<in> set gs \<Longrightarrow> \<exists>c. f g = Inr c \<and> c \<in> set cs"
  by (induction gs arbitrary: cs) (auto split: sum.splits)

text \<open>
  Whatever element \<^verbatim>\<open>pop\<close> takes first and in whatever order the loop visits the
  others, the loop ends with the intersection of all the elements.
\<close>

lemma pop_then_loop:
  assumes "set_order it" "cs \<noteq> []"
  shows "\<exists>x rest. it cs = x # rest \<and> intersection_loop x rest = \<Inter>(set cs)"
proof -
  from assms have s: "set (it cs) = set cs" by (simp add: set_order_def)
  with assms(2) obtain x rest where xr: "it cs = x # rest" by (cases "it cs") auto
  have "intersection_loop x rest = \<Inter>(set (x # rest))" by (simp add: intersection_loop_Inter)
  with s xr show ?thesis by simp
qed

lemma pop_empty: "set_order it \<Longrightarrow> it [] = []"
proof -
  assume "set_order it"
  then have "set (it []) = set []" unfolding set_order_def by blast
  then show ?thesis by simp
qed

lemma pop_case:
  assumes "set_order it"
  shows "(case it cs of [] \<Rightarrow> A | x # rest \<Rightarrow> B (intersection_loop x rest)) =
         (if cs = [] then A else B (\<Inter>(set cs)))"
proof (cases "cs = []")
  case True
  with assms show ?thesis by (simp add: pop_empty)
next
  case False
  from pop_then_loop[OF assms False] obtain x rest where
    "it cs = x # rest" "intersection_loop x rest = \<Inter>(set cs)" by blast
  with False show ?thesis by simp
qed

lemma valid_order_checks:
  "valid_order order \<Longrightarrow> (isinstance_int order \<or> isinstance_str order) \<and>
     \<not> (isinstance_str order \<and> order \<notin> set [PStr ''even'', PStr ''odd''])"
  by (cases order) (auto simp: valid_order_def)

lemma wsc_unfold:
  assumes "set_order (set_iter E)"
  shows "weakly_shared_content E (PDist d) (PList gs) order =
     (if \<not> (isinstance_int order \<or> isinstance_str order) then Inl TypeError
      else if isinstance_str order \<and> order \<notin> set [PStr ''even'', PStr ''odd''] then Inl ValueError
      else (case relevant_contents (content E d) gs of
              Inl e \<Rightarrow> Inl e
            | Inr cs \<Rightarrow> if cs = [] then Inl KeyError else upper_set_of_n_atoms E d (\<Inter>(set cs)) order))"
proof -
  have "\<And>cs. (case set_iter E cs of [] \<Rightarrow> Inl KeyError
          | x # rest \<Rightarrow> (case get_n_atoms E (intersection_loop x rest) order of
                Inl e \<Rightarrow> Inl e | Inr filtered_atoms \<Rightarrow> upper_set E d filtered_atoms)) =
        (if cs = [] then Inl KeyError else upper_set_of_n_atoms E d (\<Inter>(set cs)) order)"
    unfolding upper_set_of_n_atoms_def
    by (rule pop_case[OF assms, where B = "\<lambda>s. case get_n_atoms E s order of
                Inl e \<Rightarrow> Inl e | Inr filtered_atoms \<Rightarrow> upper_set E d filtered_atoms"])
  then show ?thesis
    by (simp add: weakly_shared_content_def split: sum.splits)
qed

lemma wsc_valid:
  assumes "set_order (set_iter E)" "valid_order order" "gs \<noteq> []"
    "\<forall>g\<in>set gs. content E d g = Inr (C g)"
  shows "weakly_shared_content E (PDist d) (PList gs) order =
           upper_set_of_n_atoms E d (\<Inter>g\<in>set gs. C g) order"
proof -
  from assms(4) have "relevant_contents (content E d) gs = Inr (map C gs)"
    by (rule relevant_contents_all_Inr)
  with assms(3) valid_order_checks[OF assms(2)] show ?thesis
    by (auto simp: wsc_unfold[OF assms(1)])
qed

lemma ex_env_set_order: "set_order (set_iter ex_env)"
  by (simp add: ex_env_def set_order_def)

lemma wsc_same_contents:
  assumes "set_order (set_iter E)"
    and "relevant_contents (content E d) gs = Inr cs"
    and "relevant_contents (content E d) gs' = Inr cs'"
    and "set cs = set cs'"
  shows "weakly_shared_content E (PDist d) (PList gs) order =
         weakly_shared_content E (PDist d) (PList gs') order"
proof -
  from assms(4) have "cs = [] \<longleftrightarrow> cs' = []" by (metis set_empty)
  with assms(2,3,4) show ?thesis
    by (simp add: wsc_unfold[OF assms(1)])
qed







lemma get_n_atoms_spec_empty:
  "valid_order order \<Longrightarrow> get_n_atoms_spec atom_order {} order = Inr {}"
  by (cases order) (auto simp: valid_order_def get_n_atoms_spec_def)

lemma upper_set_spec_empty: "upper_set_spec lattice is_above d {} = Inr {}"
  by (simp add: upper_set_spec_def)

lemma disjoint_Inter_empty:
  assumes "2 \<le> length gs"
    and "\<forall>i<length gs. \<forall>j<length gs. i \<noteq> j \<longrightarrow> C (gs ! i) \<inter> C (gs ! j) = {}"
  shows "(\<Inter>g\<in>set gs. C g) = {}"
proof -
  from assms(1) have l: "0 < length gs" "1 < length gs" by auto
  with assms(2) have "C (gs ! 0) \<inter> C (gs ! 1) = {}" by auto
  moreover from l have "gs ! 0 \<in> set gs" "gs ! 1 \<in> set gs" by auto
  ultimately show ?thesis by blast
qed

section \<open>The calls on the store and on values agree\<close>

text \<open>
  After the checks, the call allocates one set, pops from it and leaves every object that
  existed before as it was.
\<close>

lemma wsc_run_body:
  "(case alloc (SetOfFrozensets (set_iter E cs)) s of
      (relevant_contents_a, s1) \<Rightarrow>
        (case set_pop relevant_contents_a s1 of
           (Inl e, s2) \<Rightarrow> (Inl e, s2)
         | (Inr intersection_set, s2) \<Rightarrow>
             (case get_n_atoms E
                     (intersection_loop intersection_set
                        (set_elements relevant_contents_a s2)) order_v of
                Inl e \<Rightarrow> (Inl e, s2)
              | Inr filtered_atoms \<Rightarrow>
                  (case upper_set E d filtered_atoms of
                     Inl e \<Rightarrow> (Inl e, s2)
                   | Inr set_to_measure \<Rightarrow>
                       (Inr (RSet set_to_measure), s2))))) = (r, s')
   \<Longrightarrow> r = map_sum id RSet
         (case set_iter E cs of
            [] \<Rightarrow> Inl KeyError
          | intersection_set # remaining \<Rightarrow>
              (case get_n_atoms E (intersection_loop intersection_set remaining) order_v of
                 Inl e \<Rightarrow> Inl e
               | Inr filtered_atoms \<Rightarrow> upper_set E d filtered_atoms))
     \<and> next_addr s \<le> next_addr s' \<and> (\<forall>b<next_addr s. objs s' b = objs s b)"
  by (auto simp: alloc_def set_pop_def set_elements_def split: list.splits sum.splits)

text \<open>
  What the call over the store returns is what the function on values returns on the
  values of the three argument objects, and no object below the next free address is
  changed.
\<close>

lemma wsc_run_spec:
  assumes "weakly_shared_content_run E da ga oa s = (r, s')"
  shows "r = (case (as_pyval (objs s da), as_pyval (objs s ga), as_pyval (objs s oa)) of
               (Some dv, Some gv, Some ov) \<Rightarrow> map_sum id RSet (weakly_shared_content E dv gv ov)
             | _ \<Rightarrow> Inl TypeError)
         \<and> next_addr s \<le> next_addr s' \<and> (\<forall>b<next_addr s. objs s' b = objs s b)"
proof (cases "as_pyval (objs s da)")
  case None
  with assms show ?thesis by (auto simp: weakly_shared_content_run_def)
next
  case (Some dv)
  note dv = this
  show ?thesis
  proof (cases "\<exists>d. dv = PDist d")
    case False
    with assms dv show ?thesis
      by (cases dv) (auto simp: weakly_shared_content_run_def weakly_shared_content_def
                     split: option.splits)
  next
    case True
    then obtain d where d: "dv = PDist d" by blast
    show ?thesis
    proof (cases "as_pyval (objs s ga)")
      case None
      with assms dv d show ?thesis by (auto simp: weakly_shared_content_run_def)
    next
      case (Some gv)
      note gv = this
      show ?thesis
      proof (cases "\<exists>groups. gv = PList groups")
        case False
        with assms dv d gv show ?thesis
          by (cases gv) (auto simp: weakly_shared_content_run_def weakly_shared_content_def
                         split: option.splits)
      next
        case True
        then obtain groups where g: "gv = PList groups" by blast
        show ?thesis
        proof (cases "as_pyval (objs s oa)")
          case None
          with assms dv d gv g show ?thesis by (auto simp: weakly_shared_content_run_def)
        next
          case (Some ov)
          show ?thesis
          proof (cases "relevant_contents (content E d) groups")
            case (Inl e)
            with assms dv d gv g Some show ?thesis
              by (auto simp: weakly_shared_content_run_def weakly_shared_content_def
                       split: if_splits)
          next
            case (Inr cs)
            show ?thesis
            proof (cases "\<not> (isinstance_int ov \<or> isinstance_str ov)
                \<or> (isinstance_str ov \<and> ov \<notin> set [PStr ''even'', PStr ''odd''])")
              case True
              with assms dv d gv g Some Inr show ?thesis
                by (auto simp: weakly_shared_content_run_def weakly_shared_content_def
                         split: if_splits)
            next
              case False
              with assms dv d gv g Some Inr have
                "(case alloc (SetOfFrozensets (set_iter E cs)) s of
                   (relevant_contents_a, s1) \<Rightarrow>
                     (case set_pop relevant_contents_a s1 of
                        (Inl e, s2) \<Rightarrow> (Inl e, s2)
                      | (Inr intersection_set, s2) \<Rightarrow>
                          (case get_n_atoms E
                                  (intersection_loop intersection_set
                                     (set_elements relevant_contents_a s2)) ov of
                             Inl e \<Rightarrow> (Inl e, s2)
                           | Inr filtered_atoms \<Rightarrow>
                               (case upper_set E d filtered_atoms of
                                  Inl e \<Rightarrow> (Inl e, s2)
                                | Inr set_to_measure \<Rightarrow>
                                    (Inr (RSet set_to_measure), s2))))) = (r, s')"
                by (simp add: weakly_shared_content_run_def split: if_splits)
              from wsc_run_body[OF this] False dv d gv g Some Inr show ?thesis
                by (auto simp: weakly_shared_content_def)
            qed
          qed
        qed
      qed
    qed
  qed
qed

lemma ws_run_spec:
  assumes "weakly_shared_run E da ga oa la s = (r, s')"
  shows "r = (case (as_pyval (objs s da), as_pyval (objs s ga), as_pyval (objs s oa),
                    as_pyval (objs s la)) of
               (Some dv, Some gv, Some ov, Some lv) \<Rightarrow>
                  map_sum id RFloat (weakly_shared E dv gv ov lv)
             | _ \<Rightarrow> Inl TypeError)
         \<and> next_addr s \<le> next_addr s' \<and> (\<forall>b<next_addr s. objs s' b = objs s b)"
proof (cases "as_pyval (objs s da)")
  case None
  with assms show ?thesis by (auto simp: weakly_shared_run_def)
next
  case (Some dv)
  note dv = this
  show ?thesis
  proof (cases "\<exists>d. dv = PDist d")
    case False
    with assms dv show ?thesis
      by (cases dv) (auto simp: weakly_shared_run_def weakly_shared_def split: option.splits)
  next
    case True
    then obtain d where d: "dv = PDist d" by blast
    show ?thesis
    proof (cases "as_pyval (objs s ga)")
      case None
      with assms dv d show ?thesis by (auto simp: weakly_shared_run_def)
    next
      case (Some gv)
      note gv = this
      show ?thesis
      proof (cases "\<exists>groups. gv = PList groups")
        case False
        with assms dv d gv show ?thesis
          by (cases gv) (auto simp: weakly_shared_run_def weakly_shared_def split: option.splits)
      next
        case True
        then obtain groups where g: "gv = PList groups" by blast
        show ?thesis
        proof (cases "as_pyval (objs s oa)")
          case None
          with assms dv d gv g show ?thesis by (auto simp: weakly_shared_run_def)
        next
          case (Some ov)
          note ov = this
          show ?thesis
          proof (cases "isinstance_int ov \<or> isinstance_str ov")
            case False
            with assms dv d gv g ov show ?thesis
              by (auto simp: weakly_shared_run_def weakly_shared_def split: option.splits)
          next
            case True
            note ty = this
            show ?thesis
            proof (cases "as_pyval (objs s la)")
              case None
              with assms dv d gv g ov ty show ?thesis by (auto simp: weakly_shared_run_def)
            next
              case (Some lv)
              note lv = this
              show ?thesis
              proof (cases "\<not> (isinstance_int lv \<or> isinstance_float lv)
                  \<or> (isinstance_str ov \<and> ov \<notin> set [PStr ''even'', PStr ''odd''])")
                case True
                with assms dv d gv g ov ty lv show ?thesis
                  by (auto simp: weakly_shared_run_def weakly_shared_def)
              next
                case False
                obtain r0 s1 where run0: "weakly_shared_content_run E da ga oa s = (r0, s1)"
                  by force
                from wsc_run_spec[OF run0] dv d gv g ov have
                  r0: "r0 = map_sum id RSet (weakly_shared_content E (PDist d) (PList groups) ov)"
                  and fr: "next_addr s \<le> next_addr s1" "\<forall>b<next_addr s. objs s1 b = objs s b"
                  by simp_all
                from assms dv d gv g ov ty lv False run0 have
                  "(case r0 of
                      Inl e \<Rightarrow> (Inl e, s1)
                    | Inr (RSet set_to_measure) \<Rightarrow>
                        (case measure_fn E d set_to_measure lv of
                           Inl e \<Rightarrow> (Inl e, s1)
                         | Inr shared_information \<Rightarrow> (Inr (RFloat shared_information), s1))
                    | Inr _ \<Rightarrow> (Inl (Raised ''measure''), s1)) = (r, s')"
                  by (auto simp: weakly_shared_run_def split: sum.splits retval.splits)
                with r0 have "s' = s1"
                  and "r = map_sum id RFloat
                        (case weakly_shared_content E (PDist d) (PList groups) ov of
                           Inl e \<Rightarrow> Inl e
                         | Inr set_to_measure \<Rightarrow> measure_fn E d set_to_measure lv)"
                  by (cases "weakly_shared_content E (PDist d) (PList groups) ov";
                      auto split: sum.splits)+
                with fr False ty dv d gv g ov lv show ?thesis
                  by (auto simp: weakly_shared_def)
              qed
            qed
          qed
        qed
      qed
    qed
  qed
qed

lemma wsc_run_fst:
  "fst (weakly_shared_content_run E da ga oa s) =
     (case (as_pyval (objs s da), as_pyval (objs s ga), as_pyval (objs s oa)) of
        (Some dv, Some gv, Some ov) \<Rightarrow> map_sum id RSet (weakly_shared_content E dv gv ov)
      | _ \<Rightarrow> Inl TypeError)"
  using wsc_run_spec[OF prod.collapse[symmetric]] by blast


lemma ws_run_fst:
  "fst (weakly_shared_run E da ga oa la s) =
     (case (as_pyval (objs s da), as_pyval (objs s ga), as_pyval (objs s oa),
            as_pyval (objs s la)) of
        (Some dv, Some gv, Some ov, Some lv) \<Rightarrow> map_sum id RFloat (weakly_shared E dv gv ov lv)
      | _ \<Rightarrow> Inl TypeError)"
  using ws_run_spec[OF prod.collapse[symmetric]] by blast





lemma runs_agree_with_values:
  assumes "objs s dist' = Value dist_v" and "objs s list_of_rv_groups = Value groups_v"
    and "objs s order = Value order_v" and "objs s log_base = Value log_base_v"
  shows "fst (weakly_shared_content_run E dist' list_of_rv_groups order s) =
           map_sum id RSet (weakly_shared_content E dist_v groups_v order_v)
       \<and> fst (weakly_shared_run E dist' list_of_rv_groups order log_base s) =
           map_sum id RFloat (weakly_shared E dist_v groups_v order_v log_base_v)"
  using assms by (simp add: wsc_run_fst ws_run_fst)

lemma lists_of_lists: "lists_of di (map PList ss) = Inr (map PList ss)"
  by (induction ss) auto

lemma PID_LogDec_measure_sources_not_iterable:
  "PID_LogDec_measure E d (PInt n) target order method = Inl TypeError"
  by (simp add: PID_LogDec_measure_def)

section \<open>The claims\<close>

text \<open>
  C1. For every distribution \<open>d\<close>, every non-empty list of groups and every valid order,
  \<^verbatim>\<open>weakly_shared_content(d, groups, order)\<close> is the upper set (with respect to
  \<open>d\<close>) of \<^verbatim>\<open>get_n_atoms\<close> of the intersection of \<^verbatim>\<open>content(d, g)\<close> over all
  groups \<open>g\<close>, whatever the order in which the set of contents is iterated; for the list
  of a single group \<open>g\<close> it is the upper set of \<^verbatim>\<open>get_n_atoms(content(d, g), order)\<close>.
  \<open>C g\<close> is the set \<^verbatim>\<open>content\<close> returns on the group \<open>g\<close>.
\<close>

theorem weakly_shared_content_upper_set_of_intersection:
  assumes "set_order (set_iter E)" and "groups \<noteq> []" and "valid_order order"
    and "\<forall>g\<in>set groups. content E d g = Inr (C g)"
  shows "weakly_shared_content E (PDist d) (PList groups) order =
           upper_set_of_n_atoms E d (\<Inter>g\<in>set groups. C g) order
         \<and> (\<forall>g. groups = [g] \<longrightarrow>
               weakly_shared_content E (PDist d) (PList [g]) order =
                 upper_set_of_n_atoms E d (C g) order)"
proof -
  have "weakly_shared_content E (PDist d) (PList groups) order =
           upper_set_of_n_atoms E d (\<Inter>g\<in>set groups. C g) order"
    using assms by (simp add: wsc_valid)
  then show ?thesis by auto
qed

theorem weakly_shared_content_upper_set_of_intersection_witness:
  "set_order (set_iter ex_env) \<and> valid_order (PInt 2 :: unit pyval)
   \<and> content ex_env () (PList [PStr ''X'']) = Inr {1, 2}
   \<and> content ex_env () (PList [PStr ''Y'']) = Inr {2, 3}
   \<and> weakly_shared_content ex_env (PDist ()) (PList [PList [PStr ''X''], PList [PStr ''Y'']]) (PInt 2)
       = upper_set_of_n_atoms ex_env () ({1, 2} \<inter> {2, 3}) (PInt 2)
   \<and> weakly_shared_content ex_env (PDist ()) (PList [PList [PStr ''X''], PList [PStr ''Y'']]) (PInt 2)
       = Inr {2, 3, 4}
   \<and> weakly_shared_content ex_env (PDist ()) (PList [PList [PStr ''X'']]) (PInt 2)
       = upper_set_of_n_atoms ex_env () {1, 2} (PInt 2)"
proof -
  let ?C = "\<lambda>g. if g = PList [PStr ''X''] then {1, 2} else {2, 3::nat}"
  note so = ex_env_set_order
  have vo: "valid_order (PInt 2 :: unit pyval)" by (simp add: valid_order_def)
  have cX: "content ex_env () (PList [PStr ''X'']) = Inr {1, 2}"
    by (simp add: ex_env_def ex_content_def)
  have cY: "content ex_env () (PList [PStr ''Y'']) = Inr {2, 3}"
    by (simp add: ex_env_def ex_content_def)
  have two: "\<forall>g\<in>set [PList [PStr ''X''], PList [PStr ''Y'']]. content ex_env () g = Inr (?C g)"
    using cX cY by simp
  have one: "\<forall>g\<in>set [PList [PStr ''X'']]. content ex_env () g = Inr (?C g)"
    using cX by simp
  have a: "weakly_shared_content ex_env (PDist ()) (PList [PList [PStr ''X''], PList [PStr ''Y'']]) (PInt 2)
       = upper_set_of_n_atoms ex_env () ({1, 2} \<inter> {2, 3}) (PInt 2)"
    using weakly_shared_content_upper_set_of_intersection[OF so _ vo two] by simp
  have b: "weakly_shared_content ex_env (PDist ()) (PList [PList [PStr ''X'']]) (PInt 2)
       = upper_set_of_n_atoms ex_env () {1, 2} (PInt 2)"
    using weakly_shared_content_upper_set_of_intersection[OF so _ vo one] by simp
  have c: "weakly_shared_content ex_env (PDist ()) (PList [PList [PStr ''X''], PList [PStr ''Y'']]) (PInt 2)
       = Inr {2, 3, 4}"
    by code_simp
  from so vo cX cY a b c show ?thesis by blast
qed

text \<open>
  C2. The result does not depend on the order in which the groups are listed: for a
  distribution \<open>d\<close>, groups on each of which \<^verbatim>\<open>content\<close> returns, and any
  rearrangement \<open>groups'\<close> of the list \<open>groups\<close>, the two calls of
  \<^verbatim>\<open>weakly_shared_content\<close> are equal; in particular
  \<^verbatim>\<open>weakly_shared_content(d, [g1, g2], o)\<close> equals
  \<^verbatim>\<open>weakly_shared_content(d, [g2, g1], o)\<close>. (Where \<^verbatim>\<open>content\<close> raises on two
  groups, the exception of the group listed first is the one raised, so the hypothesis on
  \<^verbatim>\<open>content\<close> is needed.)
\<close>

theorem weakly_shared_content_groups_order:
  assumes "set_order (set_iter E)"
    and "\<forall>g\<in>set groups. \<exists>c. content E d g = Inr c"
    and "mset groups' = mset groups"
  shows "weakly_shared_content E (PDist d) (PList groups') order =
           weakly_shared_content E (PDist d) (PList groups) order
         \<and> (\<forall>g1 g2. groups = [g1, g2] \<longrightarrow>
               weakly_shared_content E (PDist d) (PList [g2, g1]) order =
               weakly_shared_content E (PDist d) (PList [g1, g2]) order)"
proof -
  define C where "C = (\<lambda>g. projr (content E d g))"
  have perm: "weakly_shared_content E (PDist d) (PList hs) order =
              weakly_shared_content E (PDist d) (PList groups) order"
    if "mset hs = mset groups" for hs
  proof -
    from that have s: "set hs = set groups" by (rule mset_eq_setD)
    from assms(2) have g: "\<forall>g\<in>set groups. content E d g = Inr (C g)"
      by (auto simp: C_def)
    with s have h: "\<forall>g\<in>set hs. content E d g = Inr (C g)" by simp
    have "relevant_contents (content E d) hs = Inr (map C hs)"
      using h by (rule relevant_contents_all_Inr)
    moreover have "relevant_contents (content E d) groups = Inr (map C groups)"
      using g by (rule relevant_contents_all_Inr)
    moreover have "set (map C hs) = set (map C groups)" using s by simp
    ultimately show ?thesis by (rule wsc_same_contents[OF assms(1)])
  qed
  have "mset [g2, g1] = mset groups" if "groups = [g1, g2]" for g1 g2
    using that by simp
  with perm[OF assms(3)] perm show ?thesis by metis
qed

theorem weakly_shared_content_groups_order_witness:
  "set_order (set_iter ex_env)
   \<and> content ex_env () (PList [PStr ''X'']) = Inr {1, 2}
   \<and> content ex_env () (PList [PStr ''Y'']) = Inr {2, 3}
   \<and> mset [PList [PStr ''Y''], PList [PStr ''X'' :: unit pyval]] = mset [PList [PStr ''X''], PList [PStr ''Y'']]
   \<and> weakly_shared_content ex_env (PDist ()) (PList [PList [PStr ''Y''], PList [PStr ''X'']]) (PInt 2)
       = weakly_shared_content ex_env (PDist ()) (PList [PList [PStr ''X''], PList [PStr ''Y'']]) (PInt 2)
   \<and> weakly_shared_content ex_env (PDist ()) (PList [PList [PStr ''Y''], PList [PStr ''X'']]) (PInt 2)
       = Inr {2, 3, 4}"
proof -
  have cX: "content ex_env () (PList [PStr ''X'']) = Inr {1, 2}"
    by (simp add: ex_env_def ex_content_def)
  have cY: "content ex_env () (PList [PStr ''Y'']) = Inr {2, 3}"
    by (simp add: ex_env_def ex_content_def)
  have ok: "\<forall>g\<in>set [PList [PStr ''X''], PList [PStr ''Y'']]. \<exists>c. content ex_env () g = Inr c"
    using cX cY by simp
  have p: "mset [PList [PStr ''Y''], PList [PStr ''X'' :: unit pyval]] = mset [PList [PStr ''X''], PList [PStr ''Y'']]"
    by simp
  have a: "weakly_shared_content ex_env (PDist ()) (PList [PList [PStr ''Y''], PList [PStr ''X'']]) (PInt 2)
       = weakly_shared_content ex_env (PDist ()) (PList [PList [PStr ''X''], PList [PStr ''Y'']]) (PInt 2)"
    using weakly_shared_content_groups_order[OF ex_env_set_order ok p] by simp
  have b: "weakly_shared_content ex_env (PDist ()) (PList [PList [PStr ''Y''], PList [PStr ''X'']]) (PInt 2)
       = Inr {2, 3, 4}"
    by code_simp
  from ex_env_set_order cX cY p a b show ?thesis by blast
qed

text \<open>
  C3, as the code has it. The claim as stated fails: a list whose elements are not
  sequences passes the checks of lines 47 to 55, since line 49 tests the class of the
  outer object alone. On the instance, \<^verbatim>\<open>weakly_shared_content(d, [["X"], 5], 2)\<close>
  calls \<^verbatim>\<open>content\<close> on both groups, and the exception that ends the call is the
  one \<^verbatim>\<open>content\<close> raises on \<^verbatim>\<open>5\<close>.
\<close>

theorem weakly_shared_inner_groups_unchecked:
  "isinstance_Distribution (PDist () :: unit pyval)
   \<and> isinstance_int (PInt 2 :: unit pyval)
   \<and> \<not> is_sequence_of_sequences (PList [PList [PStr ''X''], PInt 5 :: unit pyval])
   \<and> weakly_shared_content ex_env (PDist ()) (PList [PList [PStr ''X''], PInt 5]) (PInt 2)
       = Inl (Raised ''content'')
   \<and> weakly_shared_content ex_env (PDist ()) (PList [PList [PStr ''X''], PInt 5]) (PInt 2)
       \<noteq> Inl TypeError
   \<and> weakly_shared ex_env (PDist ()) (PList [PList [PStr ''X''], PInt 5]) (PInt 2) (PInt 2)
       = Inl (Raised ''content'')"
  by (simp add: weakly_shared_def weakly_shared_content_def ex_env_def ex_content_def)

text \<open>
  C3, amended. \<^verbatim>\<open>weakly_shared_content\<close> and \<^verbatim>\<open>weakly_shared\<close> raise
  \<^verbatim>\<open>TypeError\<close> if \<^verbatim>\<open>dist\<close> is not a \<^verbatim>\<open>Distribution\<close>; otherwise if the
  groups argument is not a \<^verbatim>\<open>list\<close> (its elements are not inspected); otherwise if
  \<^verbatim>\<open>order\<close> is neither an \<^verbatim>\<open>int\<close> nor a \<^verbatim>\<open>str\<close>; \<^verbatim>\<open>weakly_shared\<close>
  then raises \<^verbatim>\<open>TypeError\<close> if \<^verbatim>\<open>log_base\<close> is neither an \<^verbatim>\<open>int\<close> nor a
  \<^verbatim>\<open>float\<close>; after these, both raise \<^verbatim>\<open>ValueError\<close> if \<^verbatim>\<open>order\<close> is a
  string other than \<^verbatim>\<open>"even"\<close> and \<^verbatim>\<open>"odd"\<close>. The first check that fails
  decides the exception, and it is raised before any collaborator is called: the theorem
  holds for every \<open>E\<close>.
\<close>

theorem weakly_shared_argument_checks:
  "(\<not> isinstance_Distribution dist' \<longrightarrow>
      weakly_shared_content E dist' groups order = Inl TypeError
      \<and> weakly_shared E dist' groups order log_base = Inl TypeError)
   \<and> (isinstance_Distribution dist' \<and> \<not> isinstance_list groups \<longrightarrow>
      weakly_shared_content E dist' groups order = Inl TypeError
      \<and> weakly_shared E dist' groups order log_base = Inl TypeError)
   \<and> (isinstance_Distribution dist' \<and> isinstance_list groups
        \<and> \<not> (isinstance_int order \<or> isinstance_str order) \<longrightarrow>
      weakly_shared_content E dist' groups order = Inl TypeError
      \<and> weakly_shared E dist' groups order log_base = Inl TypeError)
   \<and> (isinstance_Distribution dist' \<and> isinstance_list groups
        \<and> (isinstance_int order \<or> isinstance_str order)
        \<and> \<not> (isinstance_int log_base \<or> isinstance_float log_base) \<longrightarrow>
      weakly_shared E dist' groups order log_base = Inl TypeError)
   \<and> (isinstance_Distribution dist' \<and> isinstance_list groups
        \<and> isinstance_str order \<and> order \<noteq> PStr ''even'' \<and> order \<noteq> PStr ''odd'' \<longrightarrow>
      weakly_shared_content E dist' groups order = Inl ValueError
      \<and> ((isinstance_int log_base \<or> isinstance_float log_base) \<longrightarrow>
           weakly_shared E dist' groups order log_base = Inl ValueError))"
proof -
  have a: "weakly_shared_content E dist' groups order = Inl TypeError"
    "weakly_shared E dist' groups order log_base = Inl TypeError"
    if "\<not> isinstance_Distribution dist'"
    using that by (cases dist'; simp add: weakly_shared_content_def weakly_shared_def)+
  have b: "weakly_shared_content E dist' groups order = Inl TypeError"
    "weakly_shared E dist' groups order log_base = Inl TypeError"
    if "isinstance_Distribution dist'" "\<not> isinstance_list groups"
    using that by (cases dist'; cases groups; simp add: weakly_shared_content_def weakly_shared_def)+
  have c: "weakly_shared_content E dist' groups order = Inl TypeError"
    "weakly_shared E dist' groups order log_base = Inl TypeError"
    if "isinstance_Distribution dist'" "isinstance_list groups"
      "\<not> (isinstance_int order \<or> isinstance_str order)"
    using that by (cases dist'; cases groups; simp add: weakly_shared_content_def weakly_shared_def)+
  have d: "weakly_shared E dist' groups order log_base = Inl TypeError"
    if "isinstance_Distribution dist'" "isinstance_list groups"
      "isinstance_int order \<or> isinstance_str order"
      "\<not> (isinstance_int log_base \<or> isinstance_float log_base)"
    using that by (cases dist'; cases groups; simp add: weakly_shared_def)
  have e: "weakly_shared_content E dist' groups order = Inl ValueError"
    if "isinstance_Distribution dist'" "isinstance_list groups"
      "isinstance_str order" "order \<noteq> PStr ''even''" "order \<noteq> PStr ''odd''"
    using that by (cases dist'; cases groups; simp add: weakly_shared_content_def)
  have f: "weakly_shared E dist' groups order log_base = Inl ValueError"
    if "isinstance_Distribution dist'" "isinstance_list groups"
      "isinstance_str order" "order \<noteq> PStr ''even''" "order \<noteq> PStr ''odd''"
      "isinstance_int log_base \<or> isinstance_float log_base"
    using that by (cases dist'; cases groups; simp add: weakly_shared_def)
  from a b c d e f show ?thesis by blast
qed

theorem weakly_shared_argument_checks_witness:
  "\<not> isinstance_Distribution (PNone :: unit pyval)
   \<and> weakly_shared_content ex_env PNone (PList [PList [PStr ''X'']]) (PInt 2) = Inl TypeError
   \<and> weakly_shared ex_env PNone (PList [PList [PStr ''X'']]) (PInt 2) (PInt 2) = Inl TypeError
   \<and> \<not> isinstance_list (PStr ''not-a-list'' :: unit pyval)
   \<and> weakly_shared_content ex_env (PDist ()) (PStr ''not-a-list'') (PInt 2) = Inl TypeError
   \<and> weakly_shared ex_env (PDist ()) (PStr ''not-a-list'') (PInt 2) (PInt 2) = Inl TypeError
   \<and> \<not> isinstance_list (PTuple [PList [PStr ''X'']] :: unit pyval)
   \<and> weakly_shared ex_env (PDist ()) (PTuple [PList [PStr ''X'']]) (PInt 2) (PInt 2) = Inl TypeError
   \<and> \<not> (isinstance_int (PNone :: unit pyval) \<or> isinstance_str (PNone :: unit pyval))
   \<and> weakly_shared_content ex_env (PDist ()) (PList [PList [PStr ''X'']]) PNone = Inl TypeError
   \<and> weakly_shared ex_env (PDist ()) (PList [PList [PStr ''X'']]) PNone (PInt 2) = Inl TypeError
   \<and> \<not> (isinstance_int (PStr ''x'' :: unit pyval) \<or> isinstance_float (PStr ''x'' :: unit pyval))
   \<and> weakly_shared ex_env (PDist ()) (PList [PList [PStr ''X'']]) (PInt 2) (PStr ''x'') = Inl TypeError
   \<and> weakly_shared ex_env (PDist ()) (PList [PList [PStr ''X'']]) (PStr ''bogus'') (PStr ''x'')
       = Inl TypeError
   \<and> isinstance_str (PStr ''bogus'' :: unit pyval)
   \<and> weakly_shared_content ex_env (PDist ()) (PList [PList [PStr ''X'']]) (PStr ''bogus'')
       = Inl ValueError
   \<and> weakly_shared ex_env (PDist ()) (PList [PList [PStr ''X'']]) (PStr ''bogus'') (PInt 2)
       = Inl ValueError"
proof -
  let ?G = "PList [PList [PStr ''X'' :: unit pyval]]"
  have 1: "weakly_shared_content ex_env PNone ?G (PInt 2) = Inl TypeError
      \<and> weakly_shared ex_env PNone ?G (PInt 2) (PInt 2) = Inl TypeError"
    using weakly_shared_argument_checks[of PNone ex_env ?G "PInt 2" "PInt 2"] by simp
  have 2: "weakly_shared_content ex_env (PDist ()) (PStr ''not-a-list'') (PInt 2) = Inl TypeError
      \<and> weakly_shared ex_env (PDist ()) (PStr ''not-a-list'') (PInt 2) (PInt 2) = Inl TypeError"
    using weakly_shared_argument_checks[of "PDist ()" ex_env "PStr ''not-a-list''" "PInt 2" "PInt 2"]
    by simp
  have 3: "weakly_shared ex_env (PDist ()) (PTuple [PList [PStr ''X'']]) (PInt 2) (PInt 2) = Inl TypeError"
    using weakly_shared_argument_checks[of "PDist ()" ex_env "PTuple [PList [PStr ''X'']]" "PInt 2" "PInt 2"]
    by simp
  have 4: "weakly_shared_content ex_env (PDist ()) ?G PNone = Inl TypeError
      \<and> weakly_shared ex_env (PDist ()) ?G PNone (PInt 2) = Inl TypeError"
    using weakly_shared_argument_checks[of "PDist ()" ex_env ?G PNone "PInt 2"] by simp
  have 5: "weakly_shared ex_env (PDist ()) ?G (PInt 2) (PStr ''x'') = Inl TypeError"
    using weakly_shared_argument_checks[of "PDist ()" ex_env ?G "PInt 2" "PStr ''x''"] by simp
  have 6: "weakly_shared ex_env (PDist ()) ?G (PStr ''bogus'') (PStr ''x'') = Inl TypeError"
    using weakly_shared_argument_checks[of "PDist ()" ex_env ?G "PStr ''bogus''" "PStr ''x''"] by simp
  have 7: "weakly_shared_content ex_env (PDist ()) ?G (PStr ''bogus'') = Inl ValueError
      \<and> weakly_shared ex_env (PDist ()) ?G (PStr ''bogus'') (PInt 2) = Inl ValueError"
    using weakly_shared_argument_checks[of "PDist ()" ex_env ?G "PStr ''bogus''" "PInt 2"] by simp
  from 1 2 3 4 5 6 7 show ?thesis by simp
qed

text \<open>
  C4. The claim asks that \<^verbatim>\<open>method="cross"\<close> and the strongly-shared functions
  report that they are not implemented. The code does not: on a list of two source groups
  and a target, \<^verbatim>\<open>PID_LogDec._measure\<close> with \<^verbatim>\<open>method="cross"\<close> returns
  \<^verbatim>\<open>None\<close>, and \<^verbatim>\<open>strongly_shared_content\<close> returns \<^verbatim>\<open>None\<close>, where
  the docstrings of both promise a \<^verbatim>\<open>float\<close>. (\<^verbatim>\<open>strongly_shared\<close> is
  named in \<^verbatim>\<open>__all__\<close> and defined nowhere in the module.)
\<close>

theorem unimplemented_paths_return_None:
  "PID_LogDec_measure ex_env (PDist ()) (PList [PList [PStr ''X''], PList [PStr ''Y'']])
      (PList [PStr ''Z'']) (PInt 2) (PStr ''cross'') = Inr None
   \<and> strongly_shared_content (PDist ()) (PList [PList [PStr ''X''], PList [PStr ''Z'']]) (PInt 2)
     = Inr (PNone :: unit pyval)"
  by (simp add: PID_LogDec_measure_def strongly_shared_content_def)

text \<open>
  C5. If there are at least two groups and their content sets are pairwise disjoint, the
  intersection is empty: \<^verbatim>\<open>weakly_shared_content(d, groups, order)\<close> returns the upper
  set of the empty filtered atom set, which is empty, and \<^verbatim>\<open>weakly_shared\<close> returns 0,
  given that \<^verbatim>\<open>measure\<close> returns 0 on the empty set. \<^verbatim>\<open>get_n_atoms\<close> and
  \<^verbatim>\<open>upper_set\<close> are the ones the specification describes.
\<close>

theorem weakly_shared_disjoint_contents:
  assumes "set_order (set_iter E)"
    and "get_n_atoms E = get_n_atoms_spec atom_order"
    and "upper_set E = upper_set_spec lattice is_above"
    and "valid_order order"
    and "isinstance_int log_base \<or> isinstance_float log_base"
    and "2 \<le> length groups"
    and "\<forall>g\<in>set groups. content E d g = Inr (C g)"
    and "\<forall>i<length groups. \<forall>j<length groups. i \<noteq> j \<longrightarrow> C (groups ! i) \<inter> C (groups ! j) = {}"
    and "measure_fn E d {} log_base = Inr 0"
  shows "weakly_shared_content E (PDist d) (PList groups) order = upper_set_of_n_atoms E d {} order
       \<and> weakly_shared_content E (PDist d) (PList groups) order = Inr {}
       \<and> weakly_shared E (PDist d) (PList groups) order log_base = Inr 0"
proof -
  from assms(6) have ne: "groups \<noteq> []" by auto
  have e: "(\<Inter>g\<in>set groups. C g) = {}" using assms(6,8) by (rule disjoint_Inter_empty)
  have a: "weakly_shared_content E (PDist d) (PList groups) order = upper_set_of_n_atoms E d {} order"
    using wsc_valid[OF assms(1) assms(4) ne assms(7)] e by simp
  have u: "upper_set_of_n_atoms E d {} order = Inr {}"
    by (simp add: upper_set_of_n_atoms_def assms(2,3) get_n_atoms_spec_empty[OF assms(4)]
        upper_set_spec_empty)
  from a u have b: "weakly_shared_content E (PDist d) (PList groups) order = Inr {}" by simp
  have "weakly_shared E (PDist d) (PList groups) order log_base = Inr 0"
    using valid_order_checks[OF assms(4)] assms(5,9) b by (auto simp: weakly_shared_def)
  with a b show ?thesis by blast
qed

theorem weakly_shared_disjoint_contents_witness:
  "set_order (set_iter ex_env)
   \<and> get_n_atoms ex_env = get_n_atoms_spec id
   \<and> upper_set ex_env = upper_set_spec (\<lambda>d. {1, 2, 3, 4}) (\<lambda>d a b. a \<le> b)
   \<and> valid_order (PInt 2 :: unit pyval)
   \<and> (isinstance_int (PInt 2 :: unit pyval) \<or> isinstance_float (PInt 2 :: unit pyval))
   \<and> 2 \<le> length [PList [PStr ''X''], PList [PStr ''Z'' :: unit pyval]]
   \<and> content ex_env () (PList [PStr ''X'']) = Inr {1, 2}
   \<and> content ex_env () (PList [PStr ''Z'']) = Inr {4}
   \<and> {1, 2} \<inter> {4 :: nat} = {}
   \<and> measure_fn ex_env () {} (PInt 2) = Inr 0
   \<and> weakly_shared_content ex_env (PDist ()) (PList [PList [PStr ''X''], PList [PStr ''Z'']]) (PInt 2)
       = Inr {}
   \<and> weakly_shared ex_env (PDist ()) (PList [PList [PStr ''X''], PList [PStr ''Z'']]) (PInt 2) (PInt 2)
       = Inr 0"
proof -
  let ?gs = "[PList [PStr ''X''], PList [PStr ''Z'' :: unit pyval]]"
  let ?C = "\<lambda>g. if g = PList [PStr ''X''] then {1, 2} else {4 :: nat}"
  have g: "get_n_atoms ex_env = get_n_atoms_spec id" by (simp add: ex_env_def)
  have u: "upper_set ex_env = upper_set_spec (\<lambda>d. {1, 2, 3, 4}) (\<lambda>d a b. a \<le> b)"
    by (simp add: ex_env_def)
  have vo: "valid_order (PInt 2 :: unit pyval)" by (simp add: valid_order_def)
  have lb: "isinstance_int (PInt 2 :: unit pyval) \<or> isinstance_float (PInt 2 :: unit pyval)" by simp
  have len: "2 \<le> length ?gs" by simp
  have cX: "content ex_env () (PList [PStr ''X'']) = Inr {1, 2}"
    by (simp add: ex_env_def ex_content_def)
  have cZ: "content ex_env () (PList [PStr ''Z'']) = Inr {4}"
    by (simp add: ex_env_def ex_content_def)
  have cs: "\<forall>g\<in>set ?gs. content ex_env () g = Inr (?C g)" using cX cZ by simp
  have dj: "{1, 2} \<inter> {4 :: nat} = {}" by simp
  have pd: "\<forall>i<length ?gs. \<forall>j<length ?gs. i \<noteq> j \<longrightarrow> ?C (?gs ! i) \<inter> ?C (?gs ! j) = {}"
    by (simp add: less_Suc_eq all_conj_distrib)
  have m: "measure_fn ex_env () {} (PInt 2) = Inr 0" by (simp add: ex_env_def)
  note t = weakly_shared_disjoint_contents[OF ex_env_set_order g u vo lb len cs pd m]
  from ex_env_set_order g u vo lb len cX cZ dj m t show ?thesis by blast
qed

text \<open>
  C6. For every \<open>d\<close>, iterable of source groups, target and order,
  \<^verbatim>\<open>PID_LogDec._measure(d, sources, target, order, method="shared_generator")\<close> is
  \<^verbatim>\<open>weakly_shared(d, gs + [list(target)], order)\<close>, where \<open>gs\<close> lists each source as
  a Python list and \<^verbatim>\<open>log_base\<close> is left at its default 2: what
  \<^verbatim>\<open>weakly_shared\<close> returns is returned, what it raises is raised. The first part
  is for any iterables (lists, tuples, strings), the second for a list of lists and a
  list.
\<close>

theorem PID_LogDec_measure_shared_generator:
  "(py_list (Distribution_iter E) sources = Inr xs
      \<and> lists_of (Distribution_iter E) xs = Inr gs
      \<and> py_list (Distribution_iter E) target = Inr t \<longrightarrow>
    PID_LogDec_measure E d sources target order (PStr ''shared_generator'') =
      (case weakly_shared E d (PList (gs @ [PList t])) order (PInt 2) of
         Inl e \<Rightarrow> Inl e
       | Inr shared_information \<Rightarrow> Inr (Some shared_information)))
   \<and> PID_LogDec_measure E d (PList (map PList source_groups)) (PList target_group) order
        (PStr ''shared_generator'') =
      (case weakly_shared E d (PList (map PList source_groups @ [PList target_group])) order (PInt 2) of
         Inl e \<Rightarrow> Inl e
       | Inr shared_information \<Rightarrow> Inr (Some shared_information))"
  by (simp add: PID_LogDec_measure_def lists_of_lists)

theorem PID_LogDec_measure_shared_generator_witness:
  "py_list (Distribution_iter ex_env) (PTuple [PStr ''X'']) = Inr [PStr ''X'']
   \<and> lists_of (Distribution_iter ex_env) [PStr ''X''] = Inr [PList [PStr ''X'']]
   \<and> py_list (Distribution_iter ex_env) (PStr ''Y'') = Inr [PStr ''Y'']
   \<and> PID_LogDec_measure ex_env (PDist ()) (PTuple [PStr ''X'']) (PStr ''Y'') (PInt 2)
        (PStr ''shared_generator'') = Inr (Some 3)
   \<and> PID_LogDec_measure ex_env (PDist ()) (PList [PList [PStr ''X'']]) (PList [PStr ''Y'']) (PInt 2)
        (PStr ''shared_generator'') = Inr (Some 3)
   \<and> weakly_shared ex_env (PDist ()) (PList [PList [PStr ''X''], PList [PStr ''Y'']]) (PInt 2) (PInt 2)
     = Inr 3"
proof -
  have w: "weakly_shared ex_env (PDist ()) (PList [PList [PStr ''X''], PList [PStr ''Y'']]) (PInt 2) (PInt 2)
     = Inr 3"
    by code_simp
  have a: "py_list (Distribution_iter ex_env) (PTuple [PStr ''X'']) = Inr [PStr ''X'']" by simp
  have b: "lists_of (Distribution_iter ex_env) [PStr ''X''] = Inr [PList [PStr ''X'']]" by simp
  have c: "py_list (Distribution_iter ex_env) (PStr ''Y'') = Inr [PStr ''Y'']" by simp
  note t = PID_LogDec_measure_shared_generator[of ex_env "PTuple [PStr ''X'']" "[PStr ''X'']"
      "[PList [PStr ''X'']]" "PStr ''Y''" "[PStr ''Y'']" "PDist ()" "PInt 2"
      "[[PStr ''X'']]" "[PStr ''Y'']"]
  from t a b c w show ?thesis by simp
qed



text \<open>
  C8. For a distribution and a valid order, \<^verbatim>\<open>weakly_shared_content(d, [], order)\<close>
  passes every check and then raises \<^verbatim>\<open>KeyError\<close>, from \<^verbatim>\<open>pop\<close> on the empty
  set; it is neither a \<^verbatim>\<open>TypeError\<close> nor a \<^verbatim>\<open>ValueError\<close>.
\<close>

theorem weakly_shared_content_no_groups:
  assumes "set_order (set_iter E)" and "valid_order order"
  shows "weakly_shared_content E (PDist d) (PList []) order = Inl KeyError"
  using valid_order_checks[OF assms(2)] by (auto simp: wsc_unfold[OF assms(1)])

theorem weakly_shared_content_no_groups_witness:
  "set_order (set_iter ex_env) \<and> valid_order (PStr ''even'' :: unit pyval)
   \<and> weakly_shared_content ex_env (PDist ()) (PList []) (PStr ''even'') = Inl KeyError"
proof -
  have vo: "valid_order (PStr ''even'' :: unit pyval)" by (simp add: valid_order_def)
  from ex_env_set_order vo weakly_shared_content_no_groups[OF ex_env_set_order vo]
  show ?thesis by blast
qed

text \<open>
  C9. A group listed again has no effect: if \<open>g\<close> occurs in \<open>groups\<close>, then
  \<^verbatim>\<open>weakly_shared_content(d, groups + [g], order)\<close> equals
  \<^verbatim>\<open>weakly_shared_content(d, groups, order)\<close>, for every first argument and every
  order.
\<close>

theorem weakly_shared_content_duplicate_group:
  assumes "set_order (set_iter E)" and "g \<in> set groups"
  shows "weakly_shared_content E dist' (PList (groups @ [g])) order =
         weakly_shared_content E dist' (PList groups) order"
proof (cases dist')
  case (PDist d)
  show ?thesis
  proof (cases "relevant_contents (content E d) groups")
    case (Inl e)
    then have "relevant_contents (content E d) (groups @ [g]) = Inl e"
      by (simp add: relevant_contents_append)
    with Inl PDist show ?thesis by (simp add: wsc_unfold[OF assms(1)])
  next
    case (Inr cs)
    from relevant_contents_Inr_D[OF Inr assms(2)] obtain c where
      c: "content E d g = Inr c" "c \<in> set cs" by blast
    with Inr have app: "relevant_contents (content E d) (groups @ [g]) = Inr (cs @ [c])"
      by (simp add: relevant_contents_append)
    from c(2) have same: "set (cs @ [c]) = set cs" by auto
    have "weakly_shared_content E (PDist d) (PList (groups @ [g])) order =
         weakly_shared_content E (PDist d) (PList groups) order"
      by (rule wsc_same_contents[OF assms(1) app Inr same])
    with PDist show ?thesis by simp
  qed
qed (simp_all add: weakly_shared_content_def)

theorem weakly_shared_content_duplicate_group_witness:
  "set_order (set_iter ex_env)
   \<and> PList [PStr ''X'' :: unit pyval] \<in> set [PList [PStr ''X''], PList [PStr ''Y'']]
   \<and> weakly_shared_content ex_env (PDist ())
        (PList ([PList [PStr ''X''], PList [PStr ''Y'']] @ [PList [PStr ''X'']])) (PInt 2)
       = weakly_shared_content ex_env (PDist ()) (PList [PList [PStr ''X''], PList [PStr ''Y'']]) (PInt 2)
   \<and> weakly_shared_content ex_env (PDist ())
        (PList [PList [PStr ''X''], PList [PStr ''Y''], PList [PStr ''X'']]) (PInt 2)
       = Inr {2, 3, 4}"
proof -
  have m: "PList [PStr ''X'' :: unit pyval] \<in> set [PList [PStr ''X''], PList [PStr ''Y'']]"
    by simp
  have b: "weakly_shared_content ex_env (PDist ())
        (PList [PList [PStr ''X''], PList [PStr ''Y''], PList [PStr ''X'']]) (PInt 2)
       = Inr {2, 3, 4}"
    by code_simp
  from ex_env_set_order m weakly_shared_content_duplicate_group[OF ex_env_set_order m] b
  show ?thesis by blast
qed

text \<open>
  C10. \<^verbatim>\<open>strongly_shared_content\<close> checks nothing: for every combination of
  arguments, a \<^verbatim>\<open>dist\<close> that is no \<^verbatim>\<open>Distribution\<close> and any \<^verbatim>\<open>order\<close>
  included, it returns \<^verbatim>\<open>None\<close> and raises nothing.
\<close>

theorem strongly_shared_content_returns_None:
  "strongly_shared_content dist' list_of_rv_groups order = Inr PNone"
  by (simp add: strongly_shared_content_def)

end
